theory Spec2Isabelle
  imports Main
begin

section \<open>Errors\<close>

text \<open>
  Go errors as values. \<open>New\<close> is \<^verbatim>\<open>errors.New\<close>, \<open>Wrap\<close> is \<^verbatim>\<open>errors.Wrap(err, msg)\<close>
  on a non-nil \<^verbatim>\<open>err\<close>, and \<open>Errorf\<close> is \<^verbatim>\<open>fmt.Errorf\<close> kept as the format string with the
  list of its (string) arguments, so that the text of a message is determined without
  spelling out the quoting done by the verb \<^verbatim>\<open>%q\<close>. \<open>ErrNotExist\<close> is the sentinel
  \<^verbatim>\<open>os.ErrNotExist\<close>, \<open>PathError\<close> is \<^verbatim>\<open>*fs.PathError\<close> (operation, path, cause), and
  \<open>Foreign\<close> is any other error that a library hands back.
\<close>

datatype error =
    New string
  | Wrap error string
  | Errorf string "string list"
  | ErrNotExist
  | PathError string string error
  | Foreign string

text \<open>\<^verbatim>\<open>errors.Is(err, target)\<close>: \<^verbatim>\<open>err\<close> or an error on its chain of causes is the target.\<close>

fun errors_Is_chain :: "error \<Rightarrow> error \<Rightarrow> bool" where
  "errors_Is_chain (Wrap cause msg) target =
     (Wrap cause msg = target \<or> errors_Is_chain cause target)"
| "errors_Is_chain (PathError opn path cause) target =
     (PathError opn path cause = target \<or> errors_Is_chain cause target)"
| "errors_Is_chain err target = (err = target)"

definition errors_Is :: "error option \<Rightarrow> error \<Rightarrow> bool" where
  "errors_Is err target = (case err of None \<Rightarrow> False | Some e \<Rightarrow> errors_Is_chain e target)"

section \<open>controllers/config.go\<close>

record NatsStreamingVersion =
  Version :: string
  NatsStreamingImage :: string
  MetricsExporterImage :: string

record NatsStreamingConfig =
  Versions :: "NatsStreamingVersion list"

record JetStreamVersion =
  JetStreamVersion_Version :: string
  NatsImage :: string
  ConfigReloaderImage :: string
  JetStreamVersion_MetricsExporterImage :: string
  StartCommand :: string

record JetStreamConfig =
  Settings :: string
  JetStreamConfig_Versions :: "JetStreamVersion list"

text \<open>The two sections are pointers in the source: \<open>None\<close> is \<^verbatim>\<open>nil\<close>.\<close>

record EventBusConfig =
  NATS :: "NatsStreamingConfig option"
  JetStream :: "JetStreamConfig option"

record GlobalConfig =
  EventBus :: "EventBusConfig option"

text \<open>
  \<^verbatim>\<open>strings.Join(elems, sep)\<close> of the Go library: the elements in order, the separator
  between neighbours.
\<close>

fun strings_Join :: "string list \<Rightarrow> string \<Rightarrow> string" where
  "strings_Join [] sep = []"
| "strings_Join [e] sep = e"
| "strings_Join (e # es) sep = e @ sep @ strings_Join es sep"

text \<open>The \<^verbatim>\<open>for ... range\<close> loop of \<^verbatim>\<open>supportedNatsStreamingVersions\<close>, appending to \<^verbatim>\<open>result\<close>.\<close>

fun supportedNatsStreamingVersions_loop ::
  "NatsStreamingVersion list \<Rightarrow> string list \<Rightarrow> string list" where
  "supportedNatsStreamingVersions_loop [] result = result"
| "supportedNatsStreamingVersions_loop (v # vs) result =
     supportedNatsStreamingVersions_loop vs (result @ [Version v])"

definition supportedNatsStreamingVersions :: "GlobalConfig \<Rightarrow> string list" where
  "supportedNatsStreamingVersions g =
     (case EventBus g of
        None \<Rightarrow> []
      | Some eb \<Rightarrow>
          (case NATS eb of
             None \<Rightarrow> []
           | Some nats \<Rightarrow> supportedNatsStreamingVersions_loop (Versions nats) []))"

text \<open>
  The search loop of \<^verbatim>\<open>GetNatsStreamingVersion\<close>: the first entry whose version is the one
  asked for; \<^verbatim>\<open>&r\<close> points to the loop variable, a copy of that entry.
\<close>

fun GetNatsStreamingVersion_loop ::
  "NatsStreamingVersion list \<Rightarrow> string \<Rightarrow> NatsStreamingVersion option" where
  "GetNatsStreamingVersion_loop [] version = None"
| "GetNatsStreamingVersion_loop (r # rs) version =
     (if Version r = version then Some r else GetNatsStreamingVersion_loop rs version)"

definition GetNatsStreamingVersion ::
  "GlobalConfig \<Rightarrow> string \<Rightarrow> error + NatsStreamingVersion" where
  \<open>GetNatsStreamingVersion g version =
     (case EventBus g of
        None \<Rightarrow> Inl (Errorf ''"eventBus.nats" not found in the configuration'' [])
      | Some eb \<Rightarrow>
          (case NATS eb of
             None \<Rightarrow> Inl (Errorf ''"eventBus.nats" not found in the configuration'' [])
           | Some nats \<Rightarrow>
               if length (Versions nats) = 0
               then Inl (Errorf ''nats streaming version configuration not found'' [])
               else
                 (case GetNatsStreamingVersion_loop (Versions nats) version of
                    Some r \<Rightarrow> Inr r
                  | None \<Rightarrow>
                      Inl (Errorf ''unsupported version %q, supported versions: %q''
                             [version,
                              strings_Join (supportedNatsStreamingVersions g) '','']))))\<close>

text \<open>A configuration with two NATS streaming versions.\<close>

definition nats_0_22 :: NatsStreamingVersion where
  "nats_0_22 = \<lparr>Version = ''0.22.1'', NatsStreamingImage = ''nats-streaming:0.22.1'',
     MetricsExporterImage = ''exporter:0.9.1''\<rparr>"

definition nats_0_25 :: NatsStreamingVersion where
  "nats_0_25 = \<lparr>Version = ''0.25.2'', NatsStreamingImage = ''nats-streaming:0.25.2'',
     MetricsExporterImage = ''exporter:0.10.0''\<rparr>"

definition config_two :: GlobalConfig where
  "config_two = \<lparr>EventBus = Some \<lparr>NATS = Some \<lparr>Versions = [nats_0_22, nats_0_25]\<rparr>,
     JetStream = None\<rparr>\<rparr>"

section \<open>The declarations the trigger uses\<close>

text \<open>
  Modelled from the spec: the declarations of the packages \<^verbatim>\<open>v1alpha1\<close>, \<^verbatim>\<open>apicommon\<close> and
  \<^verbatim>\<open>logging\<close> are not among the sources. A trigger definition has a static template
  (target identifier, connection parameters), an ordered list of parameter bindings and an
  optional payload specification; a parameter binding has a source (event name, path
  expression, optional default value), a destination path and one of the operations
  overwrite, prepend and append. The records below have the fields the trigger code reads,
  under the names it reads them by. A pointer is an \<open>option\<close> (\<open>None\<close> is \<^verbatim>\<open>nil\<close>), and
  so is a slice that the code compares with \<^verbatim>\<open>nil\<close>.
\<close>

datatype TriggerParameterOperation = Overwrite | Prepend | Append

record TriggerParameterSource =
  DependencyName :: string
  DataKey :: string
  Value :: "string option"

record TriggerParameter =
  Src :: "TriggerParameterSource option"
  Dest :: string
  Operation :: TriggerParameterOperation

record SecretKeySelector =
  SecretName :: string
  Key :: string

record v1alpha1_GCPCloudFunctionTrigger =
  CredentialsPath :: "SecretKeySelector option"
  FunctionName :: string
  Payload :: "TriggerParameter list option"
  Parameters :: "TriggerParameter list option"

record TriggerTemplate =
  Name :: string
  GCPCloudFunction :: "v1alpha1_GCPCloudFunctionTrigger option"

record Trigger =
  Template :: "TriggerTemplate option"

record Sensor =
  SensorName :: string

record Event =
  EventData :: string

text \<open>The event set \<^verbatim>\<open>map[string]*v1alpha1.Event\<close>; the trigger code only hands it on.\<close>

type_synonym events = "string \<rightharpoonup> Event option"

datatype TriggerType = GCPFunctionTrigger

datatype LogLabel = LabelTriggerType

text \<open>
  A \<^verbatim>\<open>*zap.SugaredLogger\<close> is the list of the fields added to it; \<^verbatim>\<open>With\<close> adds one.
  The logger handed to the constructor is a logger, not \<^verbatim>\<open>nil\<close>.
\<close>

datatype Logger = ZapLogger "(LogLabel \<times> TriggerType) list"

fun Logger_With :: "Logger \<Rightarrow> LogLabel \<Rightarrow> TriggerType \<Rightarrow> Logger" where
  "Logger_With (ZapLogger fs) label v = ZapLogger (fs @ [(label, v)])"

text \<open>
  A \<^verbatim>\<open>*cloudfunctions.Service\<close> that is not \<^verbatim>\<open>nil\<close> is the address of a client: two
  pointers are the same client instance when the addresses are equal.
\<close>

datatype Service = ServiceAt nat

record CallFunctionRequest =
  Data :: string

record CallFunctionResponse =
  ExecutionId :: string
  Result :: string
  Error :: string

text \<open>
  The state of a \<^verbatim>\<open>context.Context\<close> as its method \<^verbatim>\<open>Err\<close> tells it: not done, cancelled,
  or past its deadline.
\<close>

datatype Context = Active | Canceled | DeadlineExceeded

text \<open>
  A value of type \<^verbatim>\<open>interface{}\<close> handed over as the resource: the \<^verbatim>\<open>nil\<close> interface, a
  \<^verbatim>\<open>*v1alpha1.GCPCloudFunctionTrigger\<close> (which may be a \<^verbatim>\<open>nil\<close> pointer of that type), or a
  value of another dynamic type.
\<close>

datatype other_value = ChanInt | StringValue string

datatype resource =
    NilInterface
  | GCPCloudFunctionTriggerPtr "v1alpha1_GCPCloudFunctionTrigger option"
  | OtherValue other_value

section \<open>Results, panics and effects\<close>

text \<open>
  A Go function with the results \<^verbatim>\<open>(value, error)\<close> either returns the pair or panics. The
  value has the type's own \<^verbatim>\<open>nil\<close> (\<open>None\<close> for a pointer, \<open>NilInterface\<close> for an
  interface); the error is \<open>None\<close> for \<^verbatim>\<open>nil\<close>.
\<close>

datatype panic_cause = NilDereference | NilMapAssignment

datatype 'a result = Return 'a "error option" | Panic panic_cause

text \<open>\<^verbatim>\<open>errors.Wrap(err, msg)\<close> of \<^verbatim>\<open>github.com/pkg/errors\<close>: \<^verbatim>\<open>nil\<close> stays \<^verbatim>\<open>nil\<close>.\<close>

definition errors_Wrap :: "error option \<Rightarrow> string \<Rightarrow> error option" where
  "errors_Wrap err msg = (case err of None \<Rightarrow> None | Some e \<Rightarrow> Some (Wrap e msg))"

text \<open>The calls that leave the process or build a payload, in the order they are made.\<close>

datatype effect =
    Call_GetSecretFromVolume "SecretKeySelector option"
  | Call_Stat string
  | Call_NewService string
  | Call_ConstructPayload "TriggerParameter list"
  | Call_Function Service string CallFunctionRequest

text \<open>
  The trigger code calls the Go library (\<^verbatim>\<open>os.Stat\<close>, \<^verbatim>\<open>json.Marshal\<close>, \<^verbatim>\<open>json.Unmarshal\<close>
  into a \<^verbatim>\<open>*v1alpha1.GCPCloudFunctionTrigger\<close>) and the Google client library
  (\<^verbatim>\<open>cloudfunctions.NewService\<close> with the credentials file as its option, and
  \<^verbatim>\<open>Projects.Locations.Functions.Call(name, request).Do()\<close> on a client). They are
  parameters of the model, gathered in the record \<open>world\<close> with three helpers of this
  repository.
\<close>

text \<open>
  Modelled from the spec: \<^verbatim>\<open>common.GetSecretFromVolume\<close>, \<^verbatim>\<open>triggers.ApplyParams\<close> and
  \<^verbatim>\<open>triggers.ConstructPayload\<close> are not among the sources. The credential material is
  loaded from a local path and the load fails with an error if it cannot be; the parameter
  resolver is \<open>apply(templateBytes, bindings, eventSet)\<close> and the payload constructor is
  \<open>build(bindings, eventSet)\<close>, each giving bytes or an error, and each pure: the same
  inputs always produce the same output. So each is a function of its arguments here.
\<close>

record world =
  GetSecretFromVolume :: "SecretKeySelector option \<Rightarrow> error + string"
  os_Stat :: "string \<Rightarrow> error option"
  cloudfunctions_NewService :: "string \<Rightarrow> error + Service"
  json_Marshal :: "resource \<Rightarrow> error + string"
  json_Unmarshal :: "string \<Rightarrow> error + v1alpha1_GCPCloudFunctionTrigger option"
  ApplyParams :: "string \<Rightarrow> TriggerParameter list \<Rightarrow> events \<Rightarrow> error + string"
  ConstructPayload :: "events \<Rightarrow> TriggerParameter list \<Rightarrow> error + string"
  Functions_Call_Do :: "Service \<Rightarrow> string \<Rightarrow> CallFunctionRequest \<Rightarrow> error + CallFunctionResponse"

section \<open>sensors/triggers/gcp-cloud-function/gcp-cloud-function.go\<close>

record GCPCloudFunctionTrigger =
  Sensor :: "Sensor option"
  Trigger :: "Trigger option"
  Service :: "Service option"
  Logger :: Logger

text \<open>
  The client cache \<^verbatim>\<open>map[string]*cloudfunctions.Service\<close>. The map itself may be \<^verbatim>\<open>nil\<close>
  (the outer \<open>None\<close>): reading a \<^verbatim>\<open>nil\<close> map finds nothing, assigning to it panics. An entry
  is a pointer, the inner \<open>option\<close>.
\<close>

type_synonym client_map = "(string \<rightharpoonup> Service option) option"

text \<open>\<^verbatim>\<open>v, ok := m[k]\<close>\<close>

definition map_index :: "client_map \<Rightarrow> string \<Rightarrow> Service option \<times> bool" where
  "map_index m k =
     (case m of
        None \<Rightarrow> (None, False)
      | Some entries \<Rightarrow>
          (case entries k of None \<Rightarrow> (None, False) | Some v \<Rightarrow> (v, True)))"

text \<open>\<^verbatim>\<open>m[k] = v\<close>; \<open>None\<close> is the panic of an assignment to an entry of a \<^verbatim>\<open>nil\<close> map.\<close>

definition map_assign :: "client_map \<Rightarrow> string \<Rightarrow> Service option \<Rightarrow> client_map option" where
  "map_assign m k v =
     (case m of None \<Rightarrow> None | Some entries \<Rightarrow> Some (Some (entries(k \<mapsto> v))))"

text \<open>
  \<^verbatim>\<open>NewGCPCloudFunctionTrigger\<close>. The result comes with the cache as the call leaves it (the
  source updates the map in place) and with the calls made. In the branch of the miss the
  source writes \<^verbatim>\<open>gcpClient, err := cloudfunctions.NewService(...)\<close>: in that block
  \<^verbatim>\<open>err\<close> is declared already and \<^verbatim>\<open>gcpClient\<close> is not, so \<^verbatim>\<open>:=\<close> declares a second
  \<^verbatim>\<open>gcpClient\<close> for the rest of the block, here \<open>gcpClient_inner\<close>. It is what goes into the
  map. The \<^verbatim>\<open>gcpClient\<close> of the \<^verbatim>\<open>return\<close> statement, after the block, is the one that the
  lookup set.
\<close>

definition NewGCPCloudFunctionTrigger ::
  "world \<Rightarrow> client_map \<Rightarrow> Sensor option \<Rightarrow> Trigger option \<Rightarrow> Logger
   \<Rightarrow> GCPCloudFunctionTrigger option result \<times> client_map \<times> effect list" where
  "NewGCPCloudFunctionTrigger w gcpClients sensor trigger logger =
     (case trigger of
        None \<Rightarrow> (Panic NilDereference, gcpClients, [])
      | Some tr \<Rightarrow>
      (case Template tr of
        None \<Rightarrow> (Panic NilDereference, gcpClients, [])
      | Some tmpl \<Rightarrow>
          let gcptrigger = GCPCloudFunction tmpl;
              (gcpClient, ok) = map_index gcpClients (Name tmpl);
              constructed = Return (Some \<lparr>Sensor = sensor, Trigger = trigger,
                 Service = gcpClient,
                 Logger = Logger_With logger LabelTriggerType GCPFunctionTrigger\<rparr>) None
          in
          if \<not> ok then
            (case gcptrigger of
               None \<Rightarrow> (Panic NilDereference, gcpClients, [])
             | Some g \<Rightarrow>
                 (case GetSecretFromVolume w (CredentialsPath g) of
                    Inl err \<Rightarrow>
                      (Return None (errors_Wrap (Some err) ''can not find service account path key''),
                       gcpClients,
                       [Call_GetSecretFromVolume (CredentialsPath g)])
                  | Inr credentialsPath \<Rightarrow>
                      let stat_err = os_Stat w credentialsPath in
                      if errors_Is stat_err ErrNotExist then
                        (Return None (errors_Wrap stat_err
                           ''can not find service account file from CredentialsPath''),
                         gcpClients,
                         [Call_GetSecretFromVolume (CredentialsPath g), Call_Stat credentialsPath])
                      else
                        (case cloudfunctions_NewService w credentialsPath of
                           Inl err \<Rightarrow>
                             (Return None (errors_Wrap (Some err) ''failed to create a GCP service''),
                              gcpClients,
                              [Call_GetSecretFromVolume (CredentialsPath g),
                               Call_Stat credentialsPath, Call_NewService credentialsPath])
                         | Inr gcpClient_inner \<Rightarrow>
                             (case map_assign gcpClients (Name tmpl) (Some gcpClient_inner) of
                                None \<Rightarrow>
                                  (Panic NilMapAssignment, gcpClients,
                                   [Call_GetSecretFromVolume (CredentialsPath g),
                                    Call_Stat credentialsPath, Call_NewService credentialsPath])
                              | Some gcpClients' \<Rightarrow>
                                  (constructed, gcpClients',
                                   [Call_GetSecretFromVolume (CredentialsPath g),
                                    Call_Stat credentialsPath,
                                    Call_NewService credentialsPath])))))
          else (constructed, gcpClients, [])))"

definition GetTriggerType :: "GCPCloudFunctionTrigger \<Rightarrow> TriggerType" where
  "GetTriggerType t = GCPFunctionTrigger"

definition FetchResource :: "GCPCloudFunctionTrigger \<Rightarrow> Context \<Rightarrow> resource result" where
  "FetchResource t ctx =
     (case Trigger t of
        None \<Rightarrow> Panic NilDereference
      | Some tr \<Rightarrow>
          (case Template tr of
             None \<Rightarrow> Panic NilDereference
           | Some tmpl \<Rightarrow> Return (GCPCloudFunctionTriggerPtr (GCPCloudFunction tmpl)) None))"

text \<open>
  \<^verbatim>\<open>ApplyResourceParameters\<close>. The resource is marshalled first, whether or not the
  definition has parameters; \<^verbatim>\<open>t.Trigger.Template.GCPCloudFunction.Parameters\<close> is read next.
\<close>

definition ApplyResourceParameters ::
  "world \<Rightarrow> GCPCloudFunctionTrigger \<Rightarrow> events \<Rightarrow> resource \<Rightarrow> resource result" where
  "ApplyResourceParameters w t events resource =
     (case json_Marshal w resource of
        Inl err \<Rightarrow>
          Return NilInterface
            (errors_Wrap (Some err) ''failed to marshal the GCP cloud function trigger resource'')
      | Inr resourceBytes \<Rightarrow>
          (case Trigger t of
             None \<Rightarrow> Panic NilDereference
           | Some tr \<Rightarrow>
           (case Template tr of
             None \<Rightarrow> Panic NilDereference
           | Some tmpl \<Rightarrow>
           (case GCPCloudFunction tmpl of
             None \<Rightarrow> Panic NilDereference
           | Some g \<Rightarrow>
               (case Parameters g of
                  Some parameters \<Rightarrow>
                    (case ApplyParams w resourceBytes parameters events of
                       Inl err \<Rightarrow> Return NilInterface (Some err)
                     | Inr updatedResourceBytes \<Rightarrow>
                         (case json_Unmarshal w updatedResourceBytes of
                            Inl err \<Rightarrow>
                              Return NilInterface
                                (errors_Wrap (Some err)
                                   ''failed to unmarshal the updated GCP cloud function trigger resource after applying resource parameters'')
                          | Inr ht \<Rightarrow> Return (GCPCloudFunctionTriggerPtr ht) None))
                | None \<Rightarrow> Return resource None)))))"

text \<open>
  \<^verbatim>\<open>Execute\<close>, with the calls made. The value returned is the \<^verbatim>\<open>interface{}\<close> holding the
  response, \<open>None\<close> for the \<^verbatim>\<open>nil\<close> interface. The context \<^verbatim>\<open>ctx\<close> is a parameter that the
  body never names: the call is \<^verbatim>\<open>Call(trigger.FunctionName, &request).Do()\<close>.
\<close>

definition Execute ::
  "world \<Rightarrow> GCPCloudFunctionTrigger \<Rightarrow> Context \<Rightarrow> events \<Rightarrow> resource
   \<Rightarrow> CallFunctionResponse option result \<times> effect list" where
  "Execute w t ctx events resource =
     (case resource of
        GCPCloudFunctionTriggerPtr ptr \<Rightarrow>
          (case ptr of
             None \<Rightarrow> (Panic NilDereference, [])
           | Some trigger \<Rightarrow>
               (case Payload trigger of
                  None \<Rightarrow> (Return None (Some (New ''payload parameters are not specified'')), [])
                | Some payload_parameters \<Rightarrow>
                    (case ConstructPayload w events payload_parameters of
                       Inl err \<Rightarrow>
                         (Return None (Some err), [Call_ConstructPayload payload_parameters])
                     | Inr payload \<Rightarrow>
                         let request = \<lparr>Data = payload\<rparr> in
                         (case Service t of
                            None \<Rightarrow>
                              (Panic NilDereference, [Call_ConstructPayload payload_parameters])
                          | Some service \<Rightarrow>
                              (case Functions_Call_Do w service (FunctionName trigger) request of
                                 Inl err \<Rightarrow>
                                   (Return None (Some err),
                                    [Call_ConstructPayload payload_parameters,
                                     Call_Function service (FunctionName trigger) request])
                               | Inr response \<Rightarrow>
                                   (Return (Some response) None,
                                    [Call_ConstructPayload payload_parameters,
                                     Call_Function service (FunctionName trigger) request]))))))
      | _ \<Rightarrow> (Return None (Some (New ''failed to interpret the trigger resource'')), []))"

text \<open>\<^verbatim>\<open>ApplyPolicy\<close>: the error returned, \<open>None\<close> for \<^verbatim>\<open>nil\<close>.\<close>

definition ApplyPolicy :: "GCPCloudFunctionTrigger \<Rightarrow> Context \<Rightarrow> 'r \<Rightarrow> error option" where
  "ApplyPolicy t ctx resource = None"

section \<open>Sample inputs\<close>

definition amount_binding :: TriggerParameter where
  "amount_binding = \<lparr>Src = Some \<lparr>DependencyName = ''order-event'', DataKey = ''amount'',
     Value = None\<rparr>, Dest = ''amount'', Operation = Overwrite\<rparr>"

definition billFn :: v1alpha1_GCPCloudFunctionTrigger where
  "billFn = \<lparr>CredentialsPath = Some \<lparr>SecretName = ''gcp-credentials'', Key = ''key.json''\<rparr>,
     FunctionName = ''billFn'', Payload = Some [amount_binding], Parameters = None\<rparr>"

definition billFn_no_payload :: v1alpha1_GCPCloudFunctionTrigger where
  "billFn_no_payload = billFn\<lparr>Payload := None\<rparr>"

definition bill_trigger :: Trigger where
  "bill_trigger = \<lparr>Template = Some \<lparr>Name = ''bill'', GCPCloudFunction = Some billFn\<rparr>\<rparr>"

definition order_sensor :: Sensor where
  "order_sensor = \<lparr>SensorName = ''orders''\<rparr>"

definition order_events :: events where
  \<open>order_events = [''order-event'' \<mapsto> Some \<lparr>EventData = ''{"amount":42}''\<rparr>]\<close>

definition ok_response :: CallFunctionResponse where
  "ok_response = \<lparr>ExecutionId = ''e-1'', Result = ''OK'', Error = ''''\<rparr>"

text \<open>
  A world where the secret is mounted, the file is there, the service and the function
  answer, and a channel cannot be marshalled.
\<close>

definition world_ok :: world where
  \<open>world_ok = \<lparr>
     GetSecretFromVolume = (\<lambda>selector.
        case selector of
          None \<Rightarrow> Inl (New ''secret key selector is nil'')
        | Some s \<Rightarrow> Inr ''/argo-events/secrets/gcp-credentials/key.json''),
     os_Stat = (\<lambda>path. None),
     cloudfunctions_NewService = (\<lambda>path. Inr (ServiceAt 1)),
     json_Marshal = (\<lambda>v.
        case v of
          OtherValue ChanInt \<Rightarrow> Inl (Foreign ''json: unsupported type: chan int'')
        | OtherValue (StringValue s) \<Rightarrow> Inr (''"'' @ s @ ''"'')
        | NilInterface \<Rightarrow> Inr ''null''
        | GCPCloudFunctionTriggerPtr None \<Rightarrow> Inr ''null''
        | GCPCloudFunctionTriggerPtr (Some g) \<Rightarrow>
            Inr (''{"functionName":"'' @ FunctionName g @ ''"}'')),
     json_Unmarshal = (\<lambda>bytes.
        if bytes = ''null'' then Inr None
        else if bytes = ''{"functionName":"billFn"}'' then Inr (Some billFn)
        else Inl (Foreign ''json: cannot unmarshal'')),
     ApplyParams = (\<lambda>bytes parameters events. Inr bytes),
     ConstructPayload = (\<lambda>events parameters. Inr ''{"amount":42}''),
     Functions_Call_Do = (\<lambda>service name request. Inr ok_response)\<rparr>\<close>

text \<open>The same world without the secret, and without the credentials file.\<close>

definition world_no_secret :: world where
  "world_no_secret = world_ok\<lparr>GetSecretFromVolume :=
     (\<lambda>selector. Inl (Foreign ''failed to get secret value of name: gcp-credentials, key: key.json''))\<rparr>"

definition world_no_file :: world where
  "world_no_file = world_ok\<lparr>os_Stat := (\<lambda>path. Some (PathError ''stat'' path ErrNotExist))\<rparr>"

definition bill_gcp_trigger :: GCPCloudFunctionTrigger where
  "bill_gcp_trigger = \<lparr>Sensor = Some order_sensor, Trigger = Some bill_trigger,
     Service = Some (ServiceAt 1),
     Logger = ZapLogger [(LabelTriggerType, GCPFunctionTrigger)]\<rparr>"

section \<open>Properties of the configuration lookup\<close>

lemma supportedNatsStreamingVersions_loop_map:
  "supportedNatsStreamingVersions_loop vs result = result @ map Version vs"
  by (induction vs arbitrary: result) simp_all

lemma GetNatsStreamingVersion_loop_find:
  "GetNatsStreamingVersion_loop rs version = List.find (\<lambda>r. Version r = version) rs"
  by (induction rs) simp_all

lemma GetNatsStreamingVersion_loop_Some_iff:
  "(\<exists>r. GetNatsStreamingVersion_loop rs version = Some r) \<longleftrightarrow>
   (\<exists>r \<in> set rs. Version r = version)"
  by (induction rs) auto

text \<open>
  Claim C10. \<^verbatim>\<open>GetNatsStreamingVersion(version)\<close> returns a version (no error) exactly when
  the configuration has the sections \<^verbatim>\<open>EventBus\<close> and \<^verbatim>\<open>EventBus.NATS\<close> and the list
  \<^verbatim>\<open>Versions\<close> has an entry whose \<^verbatim>\<open>Version\<close> is the argument. A version returned is a copy of
  the first such entry of the list. When the lookup fails on a non-empty list, the error is
  the message \<^verbatim>\<open>unsupported version %q, supported versions: %q\<close> whose second argument is
  the configured version strings, every one, in the order of the list, joined by commas
  (which is also what \<^verbatim>\<open>supportedNatsStreamingVersions\<close> joined by commas is).
\<close>

theorem GetNatsStreamingVersion_result:
  "((\<exists>r. GetNatsStreamingVersion g version = Inr r) \<longleftrightarrow>
      (\<exists>eb nats. EventBus g = Some eb \<and> NATS eb = Some nats \<and>
         (\<exists>r \<in> set (Versions nats). Version r = version)))
   \<and> (\<forall>r. GetNatsStreamingVersion g version = Inr r \<longrightarrow>
         (\<exists>eb nats. EventBus g = Some eb \<and> NATS eb = Some nats \<and>
            List.find (\<lambda>x. Version x = version) (Versions nats) = Some r))
   \<and> (\<forall>eb nats e. EventBus g = Some eb \<and> NATS eb = Some nats \<and> Versions nats \<noteq> [] \<and>
         GetNatsStreamingVersion g version = Inl e \<longrightarrow>
         supportedNatsStreamingVersions g = map Version (Versions nats) \<and>
         e = Errorf ''unsupported version %q, supported versions: %q''
               [version, strings_Join (map Version (Versions nats)) '',''])"
proof (intro conjI allI impI)
  show "(\<exists>r. GetNatsStreamingVersion g version = Inr r) \<longleftrightarrow>
      (\<exists>eb nats. EventBus g = Some eb \<and> NATS eb = Some nats \<and>
         (\<exists>r \<in> set (Versions nats). Version r = version))"
  proof (cases "EventBus g")
    case None
    then show ?thesis by (simp add: GetNatsStreamingVersion_def)
  next
    case (Some eb)
    note eb = this
    show ?thesis
    proof (cases "NATS eb")
      case None
      with eb show ?thesis by (simp add: GetNatsStreamingVersion_def)
    next
      case (Some nats)
      have "(\<exists>r. GetNatsStreamingVersion g version = Inr r) \<longleftrightarrow>
            (\<exists>r. GetNatsStreamingVersion_loop (Versions nats) version = Some r)"
        using eb Some
        by (cases "Versions nats")
           (auto simp: GetNatsStreamingVersion_def split: option.splits)
      with eb Some show ?thesis
        by (simp add: GetNatsStreamingVersion_loop_Some_iff)
    qed
  qed
next
  fix r
  assume "GetNatsStreamingVersion g version = Inr r"
  then show "\<exists>eb nats. EventBus g = Some eb \<and> NATS eb = Some nats \<and>
            List.find (\<lambda>x. Version x = version) (Versions nats) = Some r"
    by (auto simp: GetNatsStreamingVersion_def GetNatsStreamingVersion_loop_find
             split: option.splits if_splits)
next
  fix eb nats e
  assume a: "EventBus g = Some eb \<and> NATS eb = Some nats \<and> Versions nats \<noteq> [] \<and>
         GetNatsStreamingVersion g version = Inl e"
  then show "supportedNatsStreamingVersions g = map Version (Versions nats)"
    by (simp add: supportedNatsStreamingVersions_def supportedNatsStreamingVersions_loop_map)
  from a show "e = Errorf ''unsupported version %q, supported versions: %q''
               [version, strings_Join (map Version (Versions nats)) '','']"
    by (auto simp: GetNatsStreamingVersion_def supportedNatsStreamingVersions_def
                   supportedNatsStreamingVersions_loop_map
             split: option.splits if_splits)
qed

theorem GetNatsStreamingVersion_result_witness:
  "GetNatsStreamingVersion config_two ''0.25.2'' = Inr nats_0_25
   \<and> List.find (\<lambda>x. Version x = ''0.25.2'') [nats_0_22, nats_0_25] = Some nats_0_25
   \<and> (\<nexists>r. GetNatsStreamingVersion config_two ''0.30.0'' = Inr r)
   \<and> GetNatsStreamingVersion config_two ''0.30.0'' =
       Inl (Errorf ''unsupported version %q, supported versions: %q''
              [''0.30.0'', ''0.22.1,0.25.2''])"
proof -
  have found: "GetNatsStreamingVersion config_two ''0.25.2'' = Inr nats_0_25"
    by (simp add: GetNatsStreamingVersion_def config_two_def nats_0_22_def nats_0_25_def)
  have missing: "GetNatsStreamingVersion config_two ''0.30.0'' =
       Inl (Errorf ''unsupported version %q, supported versions: %q''
              [''0.30.0'', strings_Join (supportedNatsStreamingVersions config_two) '',''])"
    by (simp add: GetNatsStreamingVersion_def config_two_def nats_0_22_def nats_0_25_def)
  have sections: "EventBus config_two = Some \<lparr>NATS = Some \<lparr>Versions = [nats_0_22, nats_0_25]\<rparr>,
     JetStream = None\<rparr>"
    by (simp add: config_two_def)
  from GetNatsStreamingVersion_result [of config_two "''0.25.2''"] found sections
  have first: "List.find (\<lambda>x. Version x = ''0.25.2'') [nats_0_22, nats_0_25] = Some nats_0_25"
    by auto
  from GetNatsStreamingVersion_result [of config_two "''0.30.0''"] missing sections
  have msg: "GetNatsStreamingVersion config_two ''0.30.0'' =
       Inl (Errorf ''unsupported version %q, supported versions: %q''
              [''0.30.0'', ''0.22.1,0.25.2''])"
    by (simp add: nats_0_22_def nats_0_25_def)
  from found first missing msg show ?thesis by simp
qed

section \<open>Properties of the trigger\<close>

lemma errors_Is_Some: "errors_Is err target \<Longrightarrow> \<exists>e. err = Some e"
  by (cases err) (simp_all add: errors_Is_def)

lemma map_index_miss:
  "snd (map_index gcpClients k) = False \<Longrightarrow> map_index gcpClients k = (None, False)"
  by (auto simp: map_index_def split: option.splits)

text \<open>
  On a miss in a map that is not \<^verbatim>\<open>nil\<close>, with the secret, the file and the service all
  there, the new client goes into the map under the template's name, and the trigger
  returned has the \<^verbatim>\<open>nil\<close> that the lookup gave as its \<^verbatim>\<open>Service\<close>.
\<close>

lemma shadowed_client_on_miss:
  assumes "trigger = Some tr" and "Template tr = Some tmpl" and "GCPCloudFunction tmpl = Some g"
    and "gcpClients = Some m" and "m (Name tmpl) = None"
    and "GetSecretFromVolume w (CredentialsPath g) = Inr path"
    and "\<not> errors_Is (os_Stat w path) ErrNotExist"
    and "cloudfunctions_NewService w path = Inr created"
  shows "NewGCPCloudFunctionTrigger w gcpClients sensor trigger logger =
    (Return (Some \<lparr>Sensor = sensor, Trigger = trigger, Service = None,
        Logger = Logger_With logger LabelTriggerType GCPFunctionTrigger\<rparr>) None,
     Some (m(Name tmpl \<mapsto> Some created)),
     [Call_GetSecretFromVolume (CredentialsPath g), Call_Stat path, Call_NewService path])"
  using assms by (simp add: NewGCPCloudFunctionTrigger_def map_index_def map_assign_def)

text \<open>
  Claim C1, at an input where it fails. The cache is empty, the secret resolves, the file
  exists and \<^verbatim>\<open>cloudfunctions.NewService\<close> gives the client at address 1. The client is
  stored under \<^verbatim>\<open>bill\<close>, the template's name, and no error is returned; the \<^verbatim>\<open>Service\<close> of
  the trigger returned is \<^verbatim>\<open>nil\<close>, not the client stored.
\<close>

theorem NewGCPCloudFunctionTrigger_miss_Service_nil:
  "NewGCPCloudFunctionTrigger world_ok (Some Map.empty) (Some order_sensor) (Some bill_trigger)
     (ZapLogger []) =
    (Return (Some \<lparr>Sensor = Some order_sensor, Trigger = Some bill_trigger, Service = None,
        Logger = ZapLogger [(LabelTriggerType, GCPFunctionTrigger)]\<rparr>) None,
     Some [''bill'' \<mapsto> Some (ServiceAt 1)],
     [Call_GetSecretFromVolume (Some \<lparr>SecretName = ''gcp-credentials'', Key = ''key.json''\<rparr>),
      Call_Stat ''/argo-events/secrets/gcp-credentials/key.json'',
      Call_NewService ''/argo-events/secrets/gcp-credentials/key.json''])"
  by (simp add: NewGCPCloudFunctionTrigger_def map_index_def map_assign_def world_ok_def
      bill_trigger_def billFn_def errors_Is_def)

text \<open>
  Claim C2, as the code has it. \<^verbatim>\<open>Execute\<close> does not consult the context it is given: the
  result and the calls made are the same for every context, so a cancelled context or an
  expired deadline does not by itself make \<^verbatim>\<open>Execute\<close> return an error.
\<close>

theorem Execute_ignores_context:
  "Execute w t ctx events resource = Execute w t ctx' events resource"
  by (simp add: Execute_def)

text \<open>
  Claim C2 as stated fails: with a cancelled context, and with one past its deadline,
  \<^verbatim>\<open>Execute\<close> builds the payload, calls the function and returns its response with no
  error.
\<close>

theorem Execute_cancelled_context_counterexample:
  \<open>Execute world_ok bill_gcp_trigger Canceled order_events
      (GCPCloudFunctionTriggerPtr (Some billFn)) =
     (Return (Some ok_response) None,
      [Call_ConstructPayload [amount_binding],
       Call_Function (ServiceAt 1) ''billFn'' \<lparr>Data = ''{"amount":42}''\<rparr>])
   \<and> Execute world_ok bill_gcp_trigger DeadlineExceeded order_events
      (GCPCloudFunctionTriggerPtr (Some billFn)) =
     (Return (Some ok_response) None,
      [Call_ConstructPayload [amount_binding],
       Call_Function (ServiceAt 1) ''billFn'' \<lparr>Data = ''{"amount":42}''\<rparr>])\<close>
  by (simp add: Execute_def world_ok_def bill_gcp_trigger_def billFn_def)

text \<open>
  Claim C3. For a resource that is a \<^verbatim>\<open>*v1alpha1.GCPCloudFunctionTrigger\<close> whose \<^verbatim>\<open>Payload\<close>
  is \<^verbatim>\<open>nil\<close>, \<^verbatim>\<open>Execute\<close> returns the error \<^verbatim>\<open>payload parameters are not specified\<close> and no
  value, and makes no call: no payload is constructed and no function is called.
\<close>

theorem Execute_payload_not_specified:
  assumes "resource = GCPCloudFunctionTriggerPtr (Some trigger)" and "Payload trigger = None"
  shows "Execute w t ctx events resource =
    (Return None (Some (New ''payload parameters are not specified'')), [])"
  using assms by (simp add: Execute_def)

theorem Execute_payload_not_specified_witness:
  "Payload billFn_no_payload = None
   \<and> Execute world_ok bill_gcp_trigger Active order_events
       (GCPCloudFunctionTriggerPtr (Some billFn_no_payload)) =
      (Return None (Some (New ''payload parameters are not specified'')), [])"
proof -
  have p: "Payload billFn_no_payload = None"
    by (simp add: billFn_no_payload_def)
  from Execute_payload_not_specified [OF refl p] p show ?thesis by simp
qed

text \<open>
  Claim C4, as the code has it. When the trigger definition has no parameters (\<^verbatim>\<open>Parameters\<close>
  is \<^verbatim>\<open>nil\<close>) and the resource can be marshalled to JSON, \<^verbatim>\<open>ApplyResourceParameters\<close>
  returns the resource it was given, unchanged, and no error.
\<close>

theorem ApplyResourceParameters_no_parameters:
  assumes "Trigger t = Some tr" and "Template tr = Some tmpl" and "GCPCloudFunction tmpl = Some g"
    and "Parameters g = None"
    and "json_Marshal w resource = Inr resourceBytes"
  shows "ApplyResourceParameters w t events resource = Return resource None"
  using assms by (simp add: ApplyResourceParameters_def)

theorem ApplyResourceParameters_no_parameters_witness:
  \<open>Parameters billFn = None
   \<and> json_Marshal world_ok (GCPCloudFunctionTriggerPtr (Some billFn)) =
       Inr ''{"functionName":"billFn"}''
   \<and> ApplyResourceParameters world_ok bill_gcp_trigger order_events
       (GCPCloudFunctionTriggerPtr (Some billFn)) =
      Return (GCPCloudFunctionTriggerPtr (Some billFn)) None\<close>
proof -
  have t: "Trigger bill_gcp_trigger = Some bill_trigger"
    by (simp add: bill_gcp_trigger_def)
  have tmpl: "Template bill_trigger = Some \<lparr>Name = ''bill'', GCPCloudFunction = Some billFn\<rparr>"
    by (simp add: bill_trigger_def)
  have g: "GCPCloudFunction \<lparr>Name = ''bill'', GCPCloudFunction = Some billFn\<rparr> = Some billFn"
    by simp
  have p: "Parameters billFn = None"
    by (simp add: billFn_def)
  have m: \<open>json_Marshal world_ok (GCPCloudFunctionTriggerPtr (Some billFn)) =
       Inr ''{"functionName":"billFn"}''\<close>
    by (simp add: world_ok_def billFn_def)
  from ApplyResourceParameters_no_parameters [OF t tmpl g p m] p m show ?thesis by simp
qed

text \<open>
  Claim C4 as stated fails: the resource is marshalled before the parameters are looked
  at. A channel cannot be marshalled, and with no parameters declared the call returns the
  marshalling error and not the resource.
\<close>

theorem ApplyResourceParameters_unmarshallable_counterexample:
  "Parameters billFn = None
   \<and> ApplyResourceParameters world_ok bill_gcp_trigger order_events (OtherValue ChanInt) =
      Return NilInterface
        (Some (Wrap (Foreign ''json: unsupported type: chan int'')
           ''failed to marshal the GCP cloud function trigger resource''))
   \<and> ApplyResourceParameters world_ok bill_gcp_trigger order_events (OtherValue ChanInt) \<noteq>
      Return (OtherValue ChanInt) None"
  by (simp add: ApplyResourceParameters_def world_ok_def billFn_def errors_Wrap_def)

text \<open>
  Claim C5. When the client cache has an entry under the name of the trigger's template,
  \<^verbatim>\<open>NewGCPCloudFunctionTrigger\<close> makes no call (no secret is read, no file is looked for, no
  client is constructed), leaves the cache as it was, and returns, with no error, a trigger
  whose \<^verbatim>\<open>Service\<close> is the cached client.
\<close>

theorem NewGCPCloudFunctionTrigger_cache_hit:
  assumes "trigger = Some tr" and "Template tr = Some tmpl"
    and "gcpClients = Some m" and "m (Name tmpl) = Some cached"
  shows "NewGCPCloudFunctionTrigger w gcpClients sensor trigger logger =
    (Return (Some \<lparr>Sensor = sensor, Trigger = trigger, Service = cached,
        Logger = Logger_With logger LabelTriggerType GCPFunctionTrigger\<rparr>) None,
     gcpClients, [])"
  using assms by (simp add: NewGCPCloudFunctionTrigger_def map_index_def)

theorem NewGCPCloudFunctionTrigger_cache_hit_witness:
  "[''bill'' \<mapsto> Some (ServiceAt 7)] (Name \<lparr>Name = ''bill'', GCPCloudFunction = Some billFn\<rparr>) =
     Some (Some (ServiceAt 7))
   \<and> NewGCPCloudFunctionTrigger world_no_secret (Some [''bill'' \<mapsto> Some (ServiceAt 7)])
       (Some order_sensor) (Some bill_trigger) (ZapLogger []) =
      (Return (Some \<lparr>Sensor = Some order_sensor, Trigger = Some bill_trigger,
          Service = Some (ServiceAt 7),
          Logger = ZapLogger [(LabelTriggerType, GCPFunctionTrigger)]\<rparr>) None,
       Some [''bill'' \<mapsto> Some (ServiceAt 7)], [])"
proof -
  have tmpl: "Template bill_trigger = Some \<lparr>Name = ''bill'', GCPCloudFunction = Some billFn\<rparr>"
    by (simp add: bill_trigger_def)
  have hit: "[''bill'' \<mapsto> Some (ServiceAt 7)]
      (Name \<lparr>Name = ''bill'', GCPCloudFunction = Some billFn\<rparr>) = Some (Some (ServiceAt 7))"
    by simp
  from NewGCPCloudFunctionTrigger_cache_hit [where trigger = "Some bill_trigger"
      and tr = bill_trigger and tmpl = "\<lparr>Name = ''bill'', GCPCloudFunction = Some billFn\<rparr>"
      and gcpClients = "Some [''bill'' \<mapsto> Some (ServiceAt 7)]"
      and m = "[''bill'' \<mapsto> Some (ServiceAt 7)]" and cached = "Some (ServiceAt 7)"
      and w = world_no_secret and sensor = "Some order_sensor" and logger = "ZapLogger []"]
    tmpl hit
  show ?thesis by simp
qed

text \<open>
  Claim C6. On a cache miss, if the secret cannot be resolved (\<^verbatim>\<open>GetSecretFromVolume\<close>
  fails) or the credentials file does not exist (\<^verbatim>\<open>os.Stat\<close> gives an error that is
  \<^verbatim>\<open>os.ErrNotExist\<close>), \<^verbatim>\<open>NewGCPCloudFunctionTrigger\<close> returns no trigger and an error that wraps
  the cause under a message saying which of the two was not found, does not call
  \<^verbatim>\<open>cloudfunctions.NewService\<close>, and leaves the cache as it was.
\<close>

theorem NewGCPCloudFunctionTrigger_credentials_not_found:
  assumes "trigger = Some tr" and "Template tr = Some tmpl" and "GCPCloudFunction tmpl = Some g"
    and miss: "snd (map_index gcpClients (Name tmpl)) = False"
    and fails: "(\<exists>err. GetSecretFromVolume w (CredentialsPath g) = Inl err) \<or>
      (\<exists>path. GetSecretFromVolume w (CredentialsPath g) = Inr path \<and>
         errors_Is (os_Stat w path) ErrNotExist)"
  shows "\<exists>cause msg trace.
    NewGCPCloudFunctionTrigger w gcpClients sensor trigger logger =
      (Return None (Some (Wrap cause msg)), gcpClients, trace)
    \<and> (msg = ''can not find service account path key'' \<or>
       msg = ''can not find service account file from CredentialsPath'')
    \<and> (\<forall>path. Call_NewService path \<notin> set trace)"
proof -
  from miss have idx: "map_index gcpClients (Name tmpl) = (None, False)"
    by (rule map_index_miss)
  from fails show ?thesis
  proof
    assume "\<exists>err. GetSecretFromVolume w (CredentialsPath g) = Inl err"
    then obtain err where "GetSecretFromVolume w (CredentialsPath g) = Inl err" ..
    with assms(1-3) idx show ?thesis
      by (simp add: NewGCPCloudFunctionTrigger_def errors_Wrap_def)
  next
    assume "\<exists>path. GetSecretFromVolume w (CredentialsPath g) = Inr path \<and>
         errors_Is (os_Stat w path) ErrNotExist"
    then obtain path where p: "GetSecretFromVolume w (CredentialsPath g) = Inr path"
      and ne: "errors_Is (os_Stat w path) ErrNotExist" by blast
    from ne obtain e where "os_Stat w path = Some e"
      by (auto dest: errors_Is_Some)
    with assms(1-3) idx p ne show ?thesis
      by (simp add: NewGCPCloudFunctionTrigger_def errors_Wrap_def)
  qed
qed

theorem NewGCPCloudFunctionTrigger_credentials_not_found_witness:
  "snd (map_index (Some Map.empty) ''bill'') = False
   \<and> GetSecretFromVolume world_no_secret (CredentialsPath billFn) =
       Inl (Foreign ''failed to get secret value of name: gcp-credentials, key: key.json'')
   \<and> NewGCPCloudFunctionTrigger world_no_secret (Some Map.empty) (Some order_sensor)
       (Some bill_trigger) (ZapLogger []) =
      (Return None
         (Some (Wrap (Foreign ''failed to get secret value of name: gcp-credentials, key: key.json'')
            ''can not find service account path key'')),
       Some Map.empty,
       [Call_GetSecretFromVolume (CredentialsPath billFn)])
   \<and> snd (map_index None ''bill'') = False
   \<and> errors_Is (os_Stat world_no_file ''/argo-events/secrets/gcp-credentials/key.json'')
       ErrNotExist
   \<and> NewGCPCloudFunctionTrigger world_no_file None (Some order_sensor)
       (Some bill_trigger) (ZapLogger []) =
      (Return None
         (Some (Wrap (PathError ''stat'' ''/argo-events/secrets/gcp-credentials/key.json''
                  ErrNotExist)
            ''can not find service account file from CredentialsPath'')),
       None,
       [Call_GetSecretFromVolume (CredentialsPath billFn),
        Call_Stat ''/argo-events/secrets/gcp-credentials/key.json''])"
proof -
  let ?tmpl = "\<lparr>Name = ''bill'', GCPCloudFunction = Some billFn\<rparr>"
  let ?path = "''/argo-events/secrets/gcp-credentials/key.json''"
  have tmpl: "Template bill_trigger = Some ?tmpl"
    by (simp add: bill_trigger_def)
  have g: "GCPCloudFunction ?tmpl = Some billFn"
    by simp
  have miss1: "snd (map_index (Some Map.empty) (Name ?tmpl)) = False"
    by (simp add: map_index_def)
  have miss2: "snd (map_index None (Name ?tmpl)) = False"
    by (simp add: map_index_def)
  have secret: "GetSecretFromVolume world_no_secret (CredentialsPath billFn) =
       Inl (Foreign ''failed to get secret value of name: gcp-credentials, key: key.json'')"
    by (simp add: world_no_secret_def)
  have path: "GetSecretFromVolume world_no_file (CredentialsPath billFn) = Inr ?path"
    by (simp add: world_no_file_def world_ok_def billFn_def)
  have stat: "errors_Is (os_Stat world_no_file ?path) ErrNotExist"
    by (simp add: world_no_file_def errors_Is_def)
  from NewGCPCloudFunctionTrigger_credentials_not_found [where trigger = "Some bill_trigger"
      and tr = bill_trigger and tmpl = ?tmpl and g = billFn
      and gcpClients = "Some Map.empty" and w = world_no_secret
      and sensor = "Some order_sensor" and logger = "ZapLogger []"]
    tmpl g miss1 secret
  have first: "NewGCPCloudFunctionTrigger world_no_secret (Some Map.empty) (Some order_sensor)
       (Some bill_trigger) (ZapLogger []) =
      (Return None
         (Some (Wrap (Foreign ''failed to get secret value of name: gcp-credentials, key: key.json'')
            ''can not find service account path key'')),
       Some Map.empty,
       [Call_GetSecretFromVolume (CredentialsPath billFn)])"
    by (simp add: NewGCPCloudFunctionTrigger_def map_index_def errors_Wrap_def
        bill_trigger_def secret)
  from NewGCPCloudFunctionTrigger_credentials_not_found [where trigger = "Some bill_trigger"
      and tr = bill_trigger and tmpl = ?tmpl and g = billFn
      and gcpClients = None and w = world_no_file
      and sensor = "Some order_sensor" and logger = "ZapLogger []"]
    tmpl g miss2 path stat
  have second: "NewGCPCloudFunctionTrigger world_no_file None (Some order_sensor)
       (Some bill_trigger) (ZapLogger []) =
      (Return None
         (Some (Wrap (PathError ''stat'' ?path ErrNotExist)
            ''can not find service account file from CredentialsPath'')),
       None,
       [Call_GetSecretFromVolume (CredentialsPath billFn), Call_Stat ?path])"
    by (simp add: NewGCPCloudFunctionTrigger_def map_index_def errors_Wrap_def
        bill_trigger_def path world_no_file_def errors_Is_def)
  from miss1 miss2 secret stat first second show ?thesis by simp
qed

text \<open>
  Claim C7. Whatever policy the trigger declares or does not declare, \<^verbatim>\<open>ApplyPolicy\<close> returns
  no error for every trigger, context and response value: every response counts as a
  success, and there is no result of \<^verbatim>\<open>ApplyPolicy\<close> that asks for a retry.
\<close>

theorem ApplyPolicy_no_error:
  "ApplyPolicy t ctx response = None"
  by (simp add: ApplyPolicy_def)

text \<open>
  Claim C8. For a resource whose dynamic type is not \<^verbatim>\<open>*v1alpha1.GCPCloudFunctionTrigger\<close>
  (the \<^verbatim>\<open>nil\<close> interface among them), \<^verbatim>\<open>Execute\<close> returns the error
  \<^verbatim>\<open>failed to interpret the trigger resource\<close> and no value, and makes no call: no payload is
  constructed and no function is called.
\<close>

theorem Execute_invalid_resource_type:
  assumes "\<forall>ptr. resource \<noteq> GCPCloudFunctionTriggerPtr ptr"
  shows "Execute w t ctx events resource =
    (Return None (Some (New ''failed to interpret the trigger resource'')), [])"
  using assms by (cases resource) (simp_all add: Execute_def)

theorem Execute_invalid_resource_type_witness:
  "Execute world_ok bill_gcp_trigger Active order_events (OtherValue (StringValue ''billFn'')) =
    (Return None (Some (New ''failed to interpret the trigger resource'')), [])
   \<and> Execute world_ok bill_gcp_trigger Active order_events NilInterface =
    (Return None (Some (New ''failed to interpret the trigger resource'')), [])"
proof -
  have a: "\<forall>ptr. OtherValue (StringValue ''billFn'') \<noteq> GCPCloudFunctionTriggerPtr ptr"
    by simp
  have b: "\<forall>ptr. NilInterface \<noteq> GCPCloudFunctionTriggerPtr ptr"
    by simp
  from Execute_invalid_resource_type [OF a] Execute_invalid_resource_type [OF b]
  show ?thesis by simp
qed

end
